theory Spec2Isabelle
  imports Main "HOL-Library.Sublist"
begin

section \<open>JavaScript values\<close>

text \<open>
  The front end receives untyped JSON from the backend (\<^verbatim>\<open>data: any\<close>) and tests it with
  \<^verbatim>\<open>||\<close>, \<^verbatim>\<open>!\<close> and \<^verbatim>\<open>===\<close>, so the values that flow through the API client are
  modelled dynamically. A string is a list of bytes (UTF-8); every pattern the code
  matches (\<^verbatim>\<open>\w\<close>, hyphen, bracket, quote, \<^verbatim>\<open><br/>\<close>, \<^verbatim>\<open>ID:\<close>) is ASCII. A number is kept as
  the text \<^verbatim>\<open>String(n)\<close> renders for it, which is all the code observes of a number
  (whether it is zero, and its rendering in a message).
\<close>

datatype jsval =
    JUndefined
  | JNull
  | JBool bool
  | JNum string
  | JStr string
  | JArr "jsval list"
  | JObj "(string \<times> jsval) list"

text \<open>Truthiness, as \<^verbatim>\<open>if (v)\<close>, \<^verbatim>\<open>!v\<close> and \<^verbatim>\<open>v || d\<close> read it.\<close>

fun truthy :: "jsval \<Rightarrow> bool" where
  "truthy JUndefined = False"
| "truthy JNull = False"
| "truthy (JBool b) = b"
| "truthy (JNum n) = (n \<noteq> ''0'' \<and> n \<noteq> ''NaN'')"
| "truthy (JStr s) = (s \<noteq> [])"
| "truthy (JArr xs) = True"
| "truthy (JObj ps) = True"

definition js_or :: "jsval \<Rightarrow> jsval \<Rightarrow> jsval" where
  "js_or a b = (if truthy a then a else b)"

definition nullish :: "jsval \<Rightarrow> bool" where
  "nullish v = (v = JUndefined \<or> v = JNull)"

text \<open>
  \<^verbatim>\<open>v.k\<close> on a value that is neither \<^verbatim>\<open>null\<close> nor \<^verbatim>\<open>undefined\<close>: the property of an
  object, \<^verbatim>\<open>undefined\<close> when it has none. The keys the code reads (\<^verbatim>\<open>model_id\<close>,
  \<^verbatim>\<open>severity\<close>, ...) are not properties of strings, numbers, booleans or arrays. On
  \<^verbatim>\<open>null\<close> and \<^verbatim>\<open>undefined\<close> the read raises a TypeError; each caller tests \<open>nullish\<close>
  first.
\<close>

fun prop_of :: "jsval \<Rightarrow> string \<Rightarrow> jsval" where
  "prop_of (JObj ps) k = (case map_of ps k of None \<Rightarrow> JUndefined | Some v \<Rightarrow> v)"
| "prop_of v k = JUndefined"

text \<open>\<^verbatim>\<open>String(v)\<close>, which \<^verbatim>\<open>new Error(v)\<close> applies to its argument.\<close>

fun join_comma :: "string list \<Rightarrow> string" where
  "join_comma [] = []"
| "join_comma [s] = s"
| "join_comma (s # t # ss) = s @ '','' @ join_comma (t # ss)"

fun to_string :: "jsval \<Rightarrow> string" where
  "to_string JUndefined = ''undefined''"
| "to_string JNull = ''null''"
| "to_string (JBool b) = (if b then ''true'' else ''false'')"
| "to_string (JNum n) = n"
| "to_string (JStr s) = s"
| "to_string (JArr xs) = join_comma (map (\<lambda>x. if x = JUndefined \<or> x = JNull then [] else to_string x) xs)"
| "to_string (JObj ps) = ''[object Object]''"

text \<open>
  Exceptions and promise rejections are values. Every one of them is an instance of
  \<^verbatim>\<open>Error\<close> and carries a message: \<open>Error\<close> is \<^verbatim>\<open>new Error(msg)\<close>, the others are
  raised by the runtime or the platform (\<^verbatim>\<open>fetch\<close>, \<^verbatim>\<open>response.json()\<close>,
  \<^verbatim>\<open>JSON.stringify\<close>, \<^verbatim>\<open>WebSocket.send\<close>).
\<close>

datatype js_error =
    Error string
  | TypeError string
  | SyntaxError string
  | DOMException string

fun message :: "js_error \<Rightarrow> string" where
  "message (Error m) = m"
| "message (TypeError m) = m"
| "message (SyntaxError m) = m"
| "message (DOMException m) = m"

text \<open>
  The TypeError of reading property \<open>k\<close> of \<open>v\<close> when \<open>v\<close> is \<^verbatim>\<open>null\<close> or \<^verbatim>\<open>undefined\<close>, with the
  runtime's message: \<^verbatim>\<open>Cannot read properties of null (reading 'k')\<close>.
\<close>

definition null_read :: "jsval \<Rightarrow> string \<Rightarrow> js_error" where
  "null_read v k =
     TypeError (''Cannot read properties of '' @ to_string v @ '' (reading ''
                 @ [CHR 0x27] @ k @ [CHR 0x27] @ '')'')"

section \<open>Diagram controls (src/components/DiagramControls.tsx)\<close>

subsection \<open>The regular expression of \<open>extractResourceIds\<close>\<close>

text \<open>\<^verbatim>\<open>\w\<close> is \<^verbatim>\<open>[A-Za-z0-9_]\<close>; \<^verbatim>\<open>[\w-]\<close> adds the hyphen.\<close>

definition is_word :: "char \<Rightarrow> bool" where
  "is_word c = (let n = (of_char c :: nat) in
     (65 \<le> n \<and> n \<le> 90) \<or> (97 \<le> n \<and> n \<le> 122) \<or> (48 \<le> n \<and> n \<le> 57) \<or> n = 95)"

definition is_word_or_hyphen :: "char \<Rightarrow> bool" where
  "is_word_or_hyphen c = (is_word c \<or> c = CHR ''-'')"

definition dquote :: char where
  "dquote = CHR 0x22"

definition newline :: char where
  "newline = CHR 0x0A"

text \<open>
  \<^verbatim>\<open>/(\w+-[\w-]+)\["([^"]+)"/\<close> tried at the start of \<open>s\<close>. Each repetition is followed by
  a character outside its class (\<^verbatim>\<open>\w+\<close> by the hyphen, \<^verbatim>\<open>[\w-]+\<close> by the bracket,
  \<^verbatim>\<open>[^"]+\<close> by the quote), so the only run that can match is the longest one and
  backtracking never finds another: the greedy match is computed by \<open>takeWhile\<close>.
  The result is the pair of the two groups.
\<close>

definition match_here :: "string \<Rightarrow> (string \<times> string) option" where
  "match_here s =
     (let w = takeWhile is_word s; r1 = dropWhile is_word s in
      if w = [] then None
      else (case r1 of
        [] \<Rightarrow> None
      | c1 # r2 \<Rightarrow>
          if c1 \<noteq> CHR ''-'' then None
          else (let t = takeWhile is_word_or_hyphen r2; r3 = dropWhile is_word_or_hyphen r2 in
            if t = [] then None
            else (case r3 of
              c2 # c3 # r4 \<Rightarrow>
                if c2 \<noteq> CHR ''['' \<or> c3 \<noteq> dquote then None
                else (let l = takeWhile (\<lambda>c. c \<noteq> dquote) r4;
                          r5 = dropWhile (\<lambda>c. c \<noteq> dquote) r4 in
                  if l = [] \<or> r5 = [] then None
                  else Some (w @ CHR ''-'' # t, l))
            | _ \<Rightarrow> None))))"

text \<open>\<^verbatim>\<open>line.match(re)\<close> without the \<^verbatim>\<open>g\<close> flag: the leftmost position that matches.\<close>

fun line_match :: "string \<Rightarrow> (string \<times> string) option" where
  "line_match [] = None"
| "line_match (c # cs) =
     (case match_here (c # cs) of Some m \<Rightarrow> Some m | None \<Rightarrow> line_match cs)"

text \<open>\<^verbatim>\<open>diagram.split('\n')\<close>.\<close>

fun split_nl :: "string \<Rightarrow> string list" where
  "split_nl [] = [[]]"
| "split_nl (c # cs) =
     (if c = newline then [] # split_nl cs
      else (case split_nl cs of l # ls \<Rightarrow> (c # l) # ls | [] \<Rightarrow> [[c]]))"

subsection \<open>The label\<close>

text \<open>\<^verbatim>\<open>.replace(/<br\/>/g, ' ')\<close>: every occurrence, left to right.\<close>

fun replace_br :: "string \<Rightarrow> string" where
  "replace_br [] = []"
| "replace_br (c # cs) =
     (if take 5 (c # cs) = ''<br/>'' then CHR '' '' # replace_br (drop 4 cs)
      else c # replace_br cs)"

text \<open>
  \<^verbatim>\<open>\s\<close>: the ASCII white space, and in UTF-8 the code points U+00A0, U+1680,
  U+2000 to U+200A, U+2028, U+2029, U+202F, U+205F, U+3000 and U+FEFF.
\<close>

definition ws1 :: "char \<Rightarrow> bool" where
  "ws1 a = (a \<in> {CHR 0x09, CHR 0x0A, CHR 0x0B, CHR 0x0C, CHR 0x0D, CHR 0x20})"

definition ws2 :: "char \<Rightarrow> char \<Rightarrow> bool" where
  "ws2 a b = (a = CHR 0xC2 \<and> b = CHR 0xA0)"

definition ws3 :: "char \<Rightarrow> char \<Rightarrow> char \<Rightarrow> bool" where
  "ws3 a b c =
     ((a = CHR 0xE1 \<and> b = CHR 0x9A \<and> c = CHR 0x80)
    \<or> (a = CHR 0xE2 \<and> b = CHR 0x80 \<and>
         ((128 \<le> (of_char c :: nat) \<and> (of_char c :: nat) \<le> 138)
           \<or> c = CHR 0xA8 \<or> c = CHR 0xA9 \<or> c = CHR 0xAF))
    \<or> (a = CHR 0xE2 \<and> b = CHR 0x81 \<and> c = CHR 0x9F)
    \<or> (a = CHR 0xE3 \<and> b = CHR 0x80 \<and> c = CHR 0x80)
    \<or> (a = CHR 0xEF \<and> b = CHR 0xBB \<and> c = CHR 0xBF))"

text \<open>The longest run of \<^verbatim>\<open>\s\<close> at the start of a string, dropped: the \<^verbatim>\<open>\s*\<close>.\<close>

fun drop_ws :: "string \<Rightarrow> string" where
  "drop_ws [] = []"
| "drop_ws [a] = (if ws1 a then [] else [a])"
| "drop_ws [a, b] = (if ws1 a then drop_ws [b] else if ws2 a b then [] else [a, b])"
| "drop_ws (a # b # c # cs) =
     (if ws1 a then drop_ws (b # c # cs)
      else if ws2 a b then drop_ws (c # cs)
      else if ws3 a b c then drop_ws cs
      else a # b # c # cs)"

lemma length_drop_ws: "length (drop_ws s) \<le> length s"
  by (induction s rule: drop_ws.induct) auto

text \<open>\<^verbatim>\<open>.replace(/ID:\s*/g, '')\<close>: every occurrence, left to right.\<close>

function strip_id :: "string \<Rightarrow> string" where
  "strip_id [] = []"
| "strip_id (a # cs) =
     (if take 3 (a # cs) = ''ID:'' then strip_id (drop_ws (drop 2 cs))
      else a # strip_id cs)"
  by pat_completeness auto
termination
proof (relation "measure length")
  show "wf (measure length)" by simp
next
  fix a :: char and cs :: string
  have "length (drop_ws (drop 2 cs)) \<le> length (drop 2 cs)" by (rule length_drop_ws)
  then show "(drop_ws (drop 2 cs), a # cs) \<in> measure length" by simp
next
  fix a :: char and cs :: string
  show "(cs, a # cs) \<in> measure length" by simp
qed

subsection \<open>\<open>extractResourceIds\<close>\<close>

record resource =
  res_id :: string
  res_type :: string
  res_label :: string

definition type_of_id :: "string \<Rightarrow> string" where
  "type_of_id i =
     (if prefix ''ec2-'' i then ''EC2''
      else if prefix ''rds-'' i then ''RDS''
      else if prefix ''lb-'' i then ''Load Balancer''
      else if prefix ''s3-'' i then ''S3''
      else if prefix ''sg-'' i then ''Security Group''
      else ''unknown'')"

text \<open>The body of the loop: what one line pushes to \<^verbatim>\<open>resources\<close>.\<close>

definition line_resources :: "string \<Rightarrow> resource list" where
  "line_resources line =
     (case line_match line of
        None \<Rightarrow> []
      | Some (i, l) \<Rightarrow>
          [\<lparr>res_id = i, res_type = type_of_id i,
            res_label = strip_id (replace_br l)\<rparr>])"

definition extractResourceIds :: "string \<Rightarrow> resource list" where
  "extractResourceIds diagram =
     (if diagram = [] then [] else concat (map line_resources (split_nl diagram)))"

subsection \<open>The component's state and its handlers\<close>

datatype action = Add | Remove | Move

fun action_name :: "action \<Rightarrow> string" where
  "action_name Add = ''add''"
| "action_name Remove = ''remove''"
| "action_name Move = ''move''"

text \<open>\<^verbatim>\<open>DiagramEditEvent\<close> of src/services/api.ts; an optional field is an \<open>option\<close>.\<close>

record DiagramEditEvent =
  action :: action
  resourceType :: string
  resourceId :: "string option"
  targetSubnet :: "string option"
  properties :: "jsval option"

text \<open>
  The \<^verbatim>\<open>useState\<close> variables of the component (\<^verbatim>\<open>selectedResource\<close>, \<^verbatim>\<open>resourceId\<close>,
  \<^verbatim>\<open>targetSubnet\<close>, \<^verbatim>\<open>activeAction\<close>), prefixed to keep them apart from the event's fields.
\<close>

record controls =
  dc_selectedResource :: string
  dc_resourceId :: string
  dc_targetSubnet :: string
  dc_activeAction :: "action option"

definition initial_controls :: controls where
  "initial_controls =
     \<lparr>dc_selectedResource = ''ec2'', dc_resourceId = [],
      dc_targetSubnet = ''subnet-public-1'', dc_activeAction = None\<rparr>"

text \<open>\<^verbatim>\<open>extractResourceIds(currentDiagram || '')\<close>; the prop is \<^verbatim>\<open>string | undefined\<close>.\<close>

definition availableResources :: "string option \<Rightarrow> resource list" where
  "availableResources currentDiagram =
     extractResourceIds (case currentDiagram of None \<Rightarrow> [] | Some d \<Rightarrow> d)"


definition getDefaultProperties :: "string \<Rightarrow> jsval" where
  "getDefaultProperties rt =
     (if rt = ''ec2'' then
        JObj [(''subnet_id'', JStr ''subnet-public-1''), (''instance_type'', JStr ''t2.micro'')]
      else if rt = ''rds'' then
        JObj [(''subnet_ids'', JArr [JStr ''subnet-private-1'', JStr ''subnet-private-2'']),
              (''engine'', JStr ''postgres''), (''instance_class'', JStr ''db.t3.micro'')]
      else if rt = ''elb'' \<or> rt = ''load_balancer'' then
        JObj [(''subnet_ids'', JArr [JStr ''subnet-public-1'']),
              (''target_instance_ids'', JArr [])]
      else if rt = ''s3'' then JObj []
      else if rt = ''security_group'' then JObj [(''vpc_id'', JStr ''vpc-main'')]
      else JObj [])"

text \<open>
  The effect that runs after a render: a \<^verbatim>\<open>resourceId\<close> that the diagram no longer holds
  is cleared, with the active action.
\<close>

definition reset_stale :: "string option \<Rightarrow> controls \<Rightarrow> controls" where
  "reset_stale currentDiagram st =
     (if dc_resourceId st \<noteq> []
         \<and> find (\<lambda>r. res_id r = dc_resourceId st) (availableResources currentDiagram) = None
      then st\<lparr>dc_resourceId := [], dc_activeAction := None\<rparr>
      else st)"

text \<open>
  \<open>handleAction\<close> returns the next state and the events handed to \<^verbatim>\<open>onEdit\<close>, in order
  (none, or one).
\<close>

definition handleAction ::
    "string option \<Rightarrow> controls \<Rightarrow> action \<Rightarrow> controls \<times> DiagramEditEvent list" where
  "handleAction currentDiagram st a =
     (if dc_activeAction st = Some a then
        (if (a = Remove \<or> a = Move) \<and> dc_resourceId st \<noteq> []
            \<and> find (\<lambda>r. res_id r = dc_resourceId st) (availableResources currentDiagram) = None
         then (st\<lparr>dc_resourceId := [], dc_activeAction := None\<rparr>, [])
         else (st\<lparr>dc_resourceId := [], dc_activeAction := None\<rparr>,
               [\<lparr>action = a,
                 resourceType = dc_selectedResource st,
                 resourceId = (if dc_resourceId st \<noteq> [] then Some (dc_resourceId st) else None),
                 targetSubnet = (if a = Move then Some (dc_targetSubnet st) else None),
                 properties =
                   (if a = Add then Some (getDefaultProperties (dc_selectedResource st))
                    else None)\<rparr>]))
      else (st\<lparr>dc_activeAction := Some a\<rparr>, []))"

section \<open>The API client (src/services/api.ts)\<close>

text \<open>
  A request is the endpoint (the path after \<^verbatim>\<open>API_BASE_URL\<close>), the HTTP verb and the value
  given to \<^verbatim>\<open>JSON.stringify\<close> for the body (which leaves out a property whose value is
  \<^verbatim>\<open>undefined\<close>). A response is what the code reads of it;
  \<^verbatim>\<open>response.text()\<close> and \<^verbatim>\<open>response.json()\<close> may reject. The network is a function from
  the request to the outcome of \<^verbatim>\<open>fetch\<close>, which may reject too. Every function of the
  client returns the requests it sent, in order, and its result: \<open>Inl\<close> is the
  exception it raises (the rejected promise), \<open>Inr\<close> the value it returns.
\<close>

record http_request =
  endpoint :: string
  verb :: string
  body :: "jsval option"

record http_response =
  ok :: bool
  statusText :: string
  body_text :: "js_error + string"
  body_json :: "js_error + jsval"

type_synonym network = "http_request \<Rightarrow> js_error + http_response"

text \<open>\<^verbatim>\<open>try { body } catch (error) { handler }\<close>.\<close>

definition try_catch :: "js_error + 'a \<Rightarrow> (js_error \<Rightarrow> js_error + 'a) \<Rightarrow> js_error + 'a" where
  "try_catch b handler = (case b of Inl e \<Rightarrow> handler e | Inr v \<Rightarrow> Inr v)"

record HealthStatus =
  status :: string
  timestamp :: "string option"

text \<open>\<open>now\<close> is \<^verbatim>\<open>new Date().toISOString()\<close>.\<close>

definition checkHealth :: "network \<Rightarrow> string \<Rightarrow> http_request list \<times> (js_error + HealthStatus)" where
  "checkHealth net now =
     (let req = \<lparr>endpoint = ''/health'', verb = ''GET'', body = None\<rparr> in
      ([req],
       try_catch
         (case net req of
            Inl e \<Rightarrow> Inl e
          | Inr response \<Rightarrow>
              if ok response then Inr \<lparr>status = ''healthy'', timestamp = Some now\<rparr>
              else Inr \<lparr>status = ''unhealthy'', timestamp = None\<rparr>)
         (\<lambda>error. Inr \<lparr>status = ''unhealthy'', timestamp = None\<rparr>)))"

text \<open>
  A delivered \<^verbatim>\<open>Warning\<close> is the object \<^verbatim>\<open>{...w, severity: s}\<close>: the properties of the
  backend's \<open>w\<close> (\<^verbatim>\<open>message\<close>, \<^verbatim>\<open>resource\<close>, \<^verbatim>\<open>recommendation\<close> and any other), with
  \<^verbatim>\<open>severity\<close> replaced by \<open>s\<close>.
\<close>

record Warning =
  severity :: string
  spread :: jsval

text \<open>
  The callback of \<^verbatim>\<open>.map\<close>. Spreading \<^verbatim>\<open>null\<close> adds nothing, and reading \<^verbatim>\<open>w.severity\<close>
  of it raises.
\<close>

definition mapWarning :: "jsval \<Rightarrow> js_error + Warning" where
  "mapWarning w =
     (if nullish w then Inl (null_read w ''severity'')
      else Inr \<lparr>severity =
                  (if prop_of w ''severity'' = JStr ''HIGH'' then ''error''
                   else if prop_of w ''severity'' = JStr ''MEDIUM'' then ''warning''
                   else ''info''),
                spread = w\<rparr>)"

text \<open>\<^verbatim>\<open>xs.map(f)\<close> with a callback that may raise: the first exception ends it.\<close>

fun map_all :: "('a \<Rightarrow> js_error + 'b) \<Rightarrow> 'a list \<Rightarrow> js_error + 'b list" where
  "map_all f [] = Inr []"
| "map_all f (x # xs) =
     (case f x of
        Inl e \<Rightarrow> Inl e
      | Inr y \<Rightarrow> (case map_all f xs of Inl e \<Rightarrow> Inl e | Inr ys \<Rightarrow> Inr (y # ys)))"

text \<open>
  \<^verbatim>\<open>(data.security_warnings || []).map(...)\<close>, the same expression in the three
  functions. Only an array has \<^verbatim>\<open>.map\<close>.
\<close>

definition mappedWarnings :: "jsval \<Rightarrow> js_error + Warning list" where
  "mappedWarnings data =
     (case js_or (prop_of data ''security_warnings'') (JArr []) of
        JArr xs \<Rightarrow> map_all mapWarning xs
      | _ \<Rightarrow> Inl (TypeError ''(data.security_warnings || []).map is not a function''))"

text \<open>
  \<^verbatim>\<open>InfrastructureResponse\<close>, with the values the code puts in it at run time; an absent
  field is \<open>JUndefined\<close>.
\<close>

record InfrastructureResponse =
  diagram :: jsval
  terraform :: jsval
  warnings :: "Warning list"
  corrections :: jsval
  modelId :: jsval
  model :: jsval

definition generateFromText ::
    "network \<Rightarrow> string \<Rightarrow> http_request list \<times> (js_error + InfrastructureResponse)" where
  "generateFromText net txt =
     (let req = \<lparr>endpoint = ''/text'', verb = ''POST'',
                 body = Some (JObj [(''text'', JStr txt)])\<rparr> in
      ([req],
       case net req of
         Inl e \<Rightarrow> Inl e
       | Inr response \<Rightarrow>
           if \<not> ok response then
             Inl (Error (''Failed to generate infrastructure: '' @ statusText response))
           else (case body_json response of
             Inl e \<Rightarrow> Inl e
           | Inr data \<Rightarrow>
               if nullish data then Inl (null_read data ''model_id'')
               else (case mappedWarnings data of
                 Inl e \<Rightarrow> Inl e
               | Inr mapped \<Rightarrow>
                   Inr \<lparr>diagram = prop_of data ''mermaid_diagram'',
                        terraform = prop_of data ''terraform_code'',
                        warnings = mapped,
                        corrections = js_or (prop_of data ''corrections'') (JArr []),
                        modelId = prop_of data ''model_id'',
                        model = prop_of data ''model_summary''\<rparr>))))"

text \<open>\<^verbatim>\<open>obj.k = v\<close> on an object kept as its list of properties.\<close>

fun set_prop :: "string \<Rightarrow> jsval \<Rightarrow> (string \<times> jsval) list \<Rightarrow> (string \<times> jsval) list" where
  "set_prop k v [] = [(k, v)]"
| "set_prop k v (p # ps) = (if fst p = k then (k, v) # ps else p # set_prop k v ps)"

text \<open>
  Lines 86 to 114 of \<open>editDiagram\<close>: the object \<^verbatim>\<open>backendRequest\<close> as it stands before
  \<^verbatim>\<open>fetch\<close>, or the exception raised while it is built.
\<close>

definition backendRequest :: "jsval \<Rightarrow> DiagramEditEvent \<Rightarrow> js_error + (string \<times> jsval) list" where
  "backendRequest mid event =
     (let r0 = [(''current_model_id'', mid),
                (''operation'', JStr (action_name (action event) @ ''_resource'')),
                (''resource_type'', JStr (resourceType event))];
          r1 = (if action event = Add then
                  set_prop ''properties''
                    (case properties event of
                       Some p \<Rightarrow>
                         js_or p (JObj [(''subnet_id'', JStr ''subnet-public-1''),
                                        (''subnet_ids'', JArr [JStr ''subnet-private-1''])])
                     | None \<Rightarrow>
                         JObj [(''subnet_id'', JStr ''subnet-public-1''),
                               (''subnet_ids'', JArr [JStr ''subnet-private-1''])]) r0
                else r0)
      in case (if action event = Remove \<or> action event = Move then
                 (case resourceId event of
                    None \<Rightarrow> Inl (Error ''Resource ID is required for remove/move operations'')
                  | Some i \<Rightarrow>
                      if i = [] then Inl (Error ''Resource ID is required for remove/move operations'')
                      else Inr (set_prop ''resource_id'' (JStr i) r1))
               else Inr r1) of
           Inl e \<Rightarrow> Inl e
         | Inr r2 \<Rightarrow>
             if action event = Move then
               (case targetSubnet event of
                  None \<Rightarrow> Inl (Error ''Target subnet is required for move operation'')
                | Some t \<Rightarrow>
                    if t = [] then Inl (Error ''Target subnet is required for move operation'')
                    else Inr (set_prop ''target_subnet_id'' (JStr t) r2))
             else Inr r2)"

definition editDiagram ::
    "network \<Rightarrow> jsval \<Rightarrow> DiagramEditEvent
      \<Rightarrow> http_request list \<times> (js_error + InfrastructureResponse)" where
  "editDiagram net mid event =
     (case backendRequest mid event of
        Inl e \<Rightarrow> ([], Inl e)
      | Inr r \<Rightarrow>
         (let req = \<lparr>endpoint = ''/edit/diagram'', verb = ''POST'', body = Some (JObj r)\<rparr> in
          ([req],
           case net req of
             Inl e \<Rightarrow> Inl e
           | Inr response \<Rightarrow>
               if \<not> ok response then
                 (case body_text response of
                    Inl e \<Rightarrow> Inl e
                  | Inr errorText \<Rightarrow>
                      Inl (Error (''Failed to edit diagram: '' @ statusText response
                                   @ '' - '' @ errorText)))
               else (case body_json response of
                 Inl e \<Rightarrow> Inl e
               | Inr data \<Rightarrow>
                   if nullish data then Inl (null_read data ''success'')
                   else if \<not> truthy (prop_of data ''success'') then
                     Inl (Error (to_string (js_or (prop_of data ''error'')
                                                  (JStr ''Operation failed''))))
                   else (case mappedWarnings data of
                     Inl e \<Rightarrow> Inl e
                   | Inr mapped \<Rightarrow>
                       Inr \<lparr>diagram = js_or (prop_of data ''mermaid_diagram'') (JStr []),
                            terraform = js_or (prop_of data ''terraform_code'') (JStr []),
                            warnings = mapped,
                            corrections = JUndefined,
                            modelId = prop_of data ''model_id'',
                            model = prop_of data ''model_summary''\<rparr>)))))"

definition editTerraform ::
    "network \<Rightarrow> jsval \<Rightarrow> jsval \<Rightarrow> jsval
      \<Rightarrow> http_request list \<times> (js_error + InfrastructureResponse)" where
  "editTerraform net mid originalCode modifiedCode =
     (let req = \<lparr>endpoint = ''/edit/terraform'', verb = ''POST'',
                 body = Some (JObj [(''current_model_id'', mid),
                                    (''original_terraform'', originalCode),
                                    (''modified_terraform'', modifiedCode)])\<rparr> in
      ([req],
       case net req of
         Inl e \<Rightarrow> Inl e
       | Inr response \<Rightarrow>
           if \<not> ok response then
             (case body_text response of
                Inl e \<Rightarrow> Inl e
              | Inr errorText \<Rightarrow>
                  Inl (Error (''Failed to update Terraform: '' @ statusText response
                               @ '' - '' @ errorText)))
           else (case body_json response of
             Inl e \<Rightarrow> Inl e
           | Inr data \<Rightarrow>
               if nullish data then Inl (null_read data ''security_warnings'')
               else (case mappedWarnings data of
                 Inl e \<Rightarrow> Inl e
               | Inr mapped \<Rightarrow>
                   Inr \<lparr>diagram = js_or (prop_of data ''mermaid_diagram'') (JStr []),
                        terraform = js_or (prop_of data ''terraform_code'') (JStr []),
                        warnings = mapped,
                        corrections = JUndefined,
                        modelId = prop_of data ''model_id'',
                        model = prop_of data ''model_summary''\<rparr>))))"

section \<open>The page (src/pages/Index.tsx)\<close>

text \<open>
  The \<^verbatim>\<open>useState\<close> variables the two handlers read and set, prefixed to keep them apart
  from the response's fields, and the toasts shown so far. A handler reads the values
  of the render that created it and its setters give the next state; \<^verbatim>\<open>console.log\<close>
  has no effect on the state.
\<close>

datatype syncStatus = Synced | Syncing | SyncError

record toast =
  title :: string
  description :: string
  variant :: "string option"

record page =
  pg_diagram :: jsval
  pg_terraform :: jsval
  pg_originalTerraform :: jsval
  pg_currentModelId :: jsval
  pg_warnings :: "Warning list"
  pg_corrections :: jsval
  pg_isHealthy :: bool
  pg_syncStatus :: syncStatus
  pg_toasts :: "toast list"

record update_options =
  skipTerraformUpdate :: "bool option"

definition updateInfrastructure :: "page \<Rightarrow> InfrastructureResponse \<Rightarrow> update_options \<Rightarrow> page" where
  "updateInfrastructure s response options =
     (let s1 = s\<lparr>pg_diagram := diagram response\<rparr>;
          s2 = (if skipTerraformUpdate options \<noteq> Some True then
                  s1\<lparr>pg_terraform := terraform response,
                     pg_originalTerraform := terraform response\<rparr>
                else s1\<lparr>pg_originalTerraform := pg_terraform s\<rparr>);
          s3 = s2\<lparr>pg_warnings := warnings response,
                  pg_corrections := js_or (corrections response) (JArr [])\<rparr>
      in if truthy (modelId response) then s3\<lparr>pg_currentModelId := modelId response\<rparr>
         else s3)"

definition add_toast :: "toast \<Rightarrow> page \<Rightarrow> page" where
  "add_toast t s = s\<lparr>pg_toasts := pg_toasts s @ [t]\<rparr>"

text \<open>
  \<open>handleApplyTerraform\<close>. Inside its \<^verbatim>\<open>try\<close>, the \<^verbatim>\<open>console.log\<close> reads \<^verbatim>\<open>.length\<close> of
  both code texts (a TypeError on \<^verbatim>\<open>null\<close> or \<^verbatim>\<open>undefined\<close>) before \<open>editTerraform\<close> is
  called with the baseline and the editor's text.
\<close>

definition handleApplyTerraform :: "network \<Rightarrow> page \<Rightarrow> page" where
  "handleApplyTerraform net s =
     (if \<not> truthy (pg_currentModelId s) then
        add_toast \<lparr>title = ''Generate First'',
                   description = ''Please generate infrastructure before editing.'',
                   variant = Some ''destructive''\<rparr> s
      else
        (let s1 = s\<lparr>pg_syncStatus := Syncing\<rparr> in
         case
           (if pg_isHealthy s then
              (if nullish (pg_originalTerraform s) then
                 Inl (null_read (pg_originalTerraform s) ''length'')
               else if nullish (pg_terraform s) then
                 Inl (null_read (pg_terraform s) ''length'')
               else (case snd (editTerraform net (pg_currentModelId s)
                                 (pg_originalTerraform s) (pg_terraform s)) of
                 Inl e \<Rightarrow> Inl e
               | Inr response \<Rightarrow>
                   Inr (add_toast
                          \<lparr>title = ''Changes Applied'',
                           description = ''Infrastructure updated from Terraform code.'',
                           variant = None\<rparr>
                          (updateInfrastructure s1 response
                             \<lparr>skipTerraformUpdate = Some True\<rparr>))))
            else
              Inr (add_toast
                     \<lparr>title = ''Backend Offline'',
                      description = ''Backend not connected. Cannot apply changes.'',
                      variant = Some ''destructive''\<rparr> s1))
         of
           Inr s2 \<Rightarrow> s2\<lparr>pg_syncStatus := Synced\<rparr>
         | Inl error \<Rightarrow>
             add_toast \<lparr>title = ''Apply Failed'', description = message error,
                        variant = Some ''destructive''\<rparr>
               (s1\<lparr>pg_syncStatus := SyncError\<rparr>)))"

section \<open>The WebSocket hook (src/hooks/useWebSocket.ts)\<close>

datatype ready_state = CONNECTING | OPEN | CLOSING | CLOSED

text \<open>
  Of the socket, the hook's \<open>sendMessage\<close> reads \<^verbatim>\<open>readyState\<close> and calls \<^verbatim>\<open>send\<close>, which
  takes the frame or raises. The hook's state is \<^verbatim>\<open>ws\<close> (\<^verbatim>\<open>null\<close> is \<open>None\<close>) and
  \<^verbatim>\<open>isConnected\<close>.
\<close>

record socket =
  readyState :: ready_state
  send :: "string \<Rightarrow> js_error + unit"

record hook =
  ws :: "socket option"
  isConnected :: bool

text \<open>The object \<^verbatim>\<open>{ type, ...data }\<close> given to \<^verbatim>\<open>JSON.stringify\<close>.\<close>

record ws_message =
  msg_type :: string
  msg_data :: jsval

text \<open>
  \<open>stringify\<close> is \<^verbatim>\<open>JSON.stringify\<close>, which raises on a value it cannot serialise.
  \<open>sendMessage\<close> returns the frames the socket took, and its result.
\<close>

definition sendMessage ::
    "(ws_message \<Rightarrow> js_error + string) \<Rightarrow> hook \<Rightarrow> string \<Rightarrow> jsval
      \<Rightarrow> string list \<times> (js_error + unit)" where
  "sendMessage stringify h ty data =
     (case ws h of
        None \<Rightarrow> ([], Inr ())
      | Some sock \<Rightarrow>
          if isConnected h \<and> readyState sock = OPEN then
            (let tried =
               (case stringify \<lparr>msg_type = ty, msg_data = data\<rparr> of
                  Inl e \<Rightarrow> ([], Inl e)
                | Inr frame \<Rightarrow>
                    (case send sock frame of
                       Inl e \<Rightarrow> ([], Inl e)
                     | Inr u \<Rightarrow> ([frame], Inr ())))
             in (fst tried, try_catch (snd tried) (\<lambda>error. Inr ())))
          else ([], Inr ()))"

section \<open>Concrete inputs\<close>

text \<open>
  A diagram in the format the source's comment shows, a backend that answers every
  request with one successful body, and a page on which the user has edited the code.
\<close>

definition demo_diagram :: string where
  \<open>demo_diagram =
     ''graph TB'' @ newline #
     ''    subgraph vpc-main["VPC main"]'' @ newline #
     ''        ec2-web-1["web-server-1<br/>ID: ec2-web-1<br/>t2.micro"]'' @ newline #
     ''        rds-main["orders<br/>ID: rds-main<br/>postgres"]'' @ newline #
     ''        lb-main["ALB<br/>ID: lb-main"]'' @ newline #
     ''    end''\<close>

definition demo_data :: jsval where
  "demo_data =
     JObj [(''success'', JBool True),
           (''mermaid_diagram'', JStr ''graph TB''),
           (''terraform_code'', JStr ''generated code''),
           (''security_warnings'',
              JArr [JObj [(''severity'', JStr ''HIGH''), (''message'', JStr ''RDS is public'')],
                    JObj [(''severity'', JStr ''LOW''), (''message'', JStr ''no Multi-AZ'')]]),
           (''model_id'', JStr ''m-1'')]"

definition demo_net :: network where
  "demo_net req =
     Inr \<lparr>ok = True, statusText = ''OK'', body_text = Inr [], body_json = Inr demo_data\<rparr>"

definition demo_warnings :: "Warning list" where
  "demo_warnings =
     [\<lparr>severity = ''error'',
       spread = JObj [(''severity'', JStr ''HIGH''), (''message'', JStr ''RDS is public'')]\<rparr>,
      \<lparr>severity = ''info'',
       spread = JObj [(''severity'', JStr ''LOW''), (''message'', JStr ''no Multi-AZ'')]\<rparr>]"

definition demo_response :: InfrastructureResponse where
  "demo_response =
     \<lparr>diagram = JStr ''graph TB'', terraform = JStr ''generated code'',
      warnings = demo_warnings, corrections = JUndefined, modelId = JStr ''m-1'',
      model = JUndefined\<rparr>"

definition demo_page :: page where
  "demo_page =
     \<lparr>pg_diagram = JStr ''graph LR'', pg_terraform = JStr ''edited code'',
      pg_originalTerraform = JStr ''old code'', pg_currentModelId = JStr ''m-0'',
      pg_warnings = [], pg_corrections = JArr [], pg_isHealthy = True,
      pg_syncStatus = Synced, pg_toasts = []\<rparr>"

text \<open>A backend that refuses the operation: HTTP 200 with \<^verbatim>\<open>success: false\<close>.\<close>

definition refusing_net :: network where
  "refusing_net req =
     Inr \<lparr>ok = True, statusText = ''OK'', body_text = Inr [],
          body_json = Inr (JObj [(''success'', JBool False),
                                 (''error'', JStr ''Resource lb-9 not found'')])\<rparr>"

definition demo_move :: DiagramEditEvent where
  "demo_move =
     \<lparr>action = Move, resourceType = ''ec2'', resourceId = Some ''ec2-web-1'',
      targetSubnet = Some ''subnet-private-1'', properties = None\<rparr>"

text \<open>
  A diagram whose public subnet is \<open>subnet-web-a\<close>: no resource of it is called
  \<open>subnet-public-1\<close>.
\<close>

definition other_diagram :: string where
  \<open>other_diagram =
     ''graph TB'' @ newline #
     ''    subgraph vpc-main["VPC main"]'' @ newline #
     ''        subgraph subnet-web-a["Public Subnet"]'' @ newline #
     ''            ec2-web-1["web-server-1<br/>ID: ec2-web-1<br/>t2.micro"]'' @ newline #
     ''        end'' @ newline #
     ''    end''\<close>

text \<open>The controls after a first click on Add: the next click confirms.\<close>

definition confirm_add_ec2 :: controls where
  "confirm_add_ec2 = initial_controls\<lparr>dc_activeAction := Some Add\<rparr>"



lemma demo_mappedWarnings: "mappedWarnings demo_data = Inr demo_warnings"
  by (simp add: mappedWarnings_def demo_data_def js_or_def mapWarning_def nullish_def
      demo_warnings_def)

lemma demo_editTerraform: "snd (editTerraform demo_net m a b) = Inr demo_response"
  by (simp add: editTerraform_def demo_net_def Let_def demo_mappedWarnings)
     (simp add: demo_data_def nullish_def js_or_def demo_response_def)

lemma demo_available:
  "map res_id (availableResources (Some demo_diagram))
     = [''vpc-main'', ''ec2-web-1'', ''rds-main'', ''lb-main'']"
  by code_simp

section \<open>The regular expression and the lines\<close>

lemma match_here_nonword: "\<not> is_word c \<Longrightarrow> match_here (c # s) = None"
  by (simp add: match_here_def)

lemma line_match_skip: "\<forall>c\<in>set pre. \<not> is_word c \<Longrightarrow> line_match (pre @ s) = line_match s"
  by (induction pre) (simp_all add: match_here_nonword)

lemma not_word_hyphen: "\<not> is_word CHR ''-''"
  by (simp add: is_word_def)

lemma not_word_or_hyphen_bracket: "\<not> is_word_or_hyphen CHR ''[''"
  by (simp add: is_word_or_hyphen_def is_word_def)

text \<open>
  \<open>match_here\<close> accepts exactly the strings that start with a match of the regular
  expression: one or more word characters, a hyphen, one or more word characters or
  hyphens, a bracket and a quote, one or more characters other than the quote, and a
  quote. The two lemmas are the two directions.
\<close>

lemma match_here_node:
  assumes w: "w \<noteq> []" "\<forall>c\<in>set w. is_word c"
    and t: "t \<noteq> []" "\<forall>c\<in>set t. is_word_or_hyphen c"
    and l: "l \<noteq> []" "dquote \<notin> set l"
  shows "match_here (w @ CHR ''-'' # t @ CHR ''['' # dquote # l @ dquote # rest)
         = Some (w @ CHR ''-'' # t, l)"
proof -
  let ?s3 = "CHR ''['' # dquote # l @ dquote # rest"
  let ?s2 = "t @ ?s3"
  let ?s1 = "CHR ''-'' # ?s2"
  have tw: "takeWhile is_word (w @ ?s1) = w"
    using w(2) by (simp add: not_word_hyphen)
  have dw: "dropWhile is_word (w @ ?s1) = ?s1"
    using w(2) by (simp add: not_word_hyphen)
  have tt: "takeWhile is_word_or_hyphen ?s2 = t"
    using t(2) by (simp add: not_word_or_hyphen_bracket)
  have dt: "dropWhile is_word_or_hyphen ?s2 = ?s3"
    using t(2) by (simp add: not_word_or_hyphen_bracket)
  have nq: "\<forall>c\<in>set l. c \<noteq> dquote" using l(2) by auto
  have tl: "takeWhile (\<lambda>c. c \<noteq> dquote) (l @ dquote # rest) = l"
    using nq by simp
  have dl: "dropWhile (\<lambda>c. c \<noteq> dquote) (l @ dquote # rest) = dquote # rest"
    using nq by simp
  show ?thesis
    unfolding match_here_def tw dw Let_def
    using w(1) t(1) l(1) by (simp add: tt dt tl dl)
qed

lemma match_here_sound:
  assumes "match_here s = Some (i, l)"
  shows "\<exists>w t rest. s = w @ CHR ''-'' # t @ CHR ''['' # dquote # l @ dquote # rest
           \<and> i = w @ CHR ''-'' # t
           \<and> w \<noteq> [] \<and> (\<forall>c\<in>set w. is_word c)
           \<and> t \<noteq> [] \<and> (\<forall>c\<in>set t. is_word_or_hyphen c)
           \<and> l \<noteq> [] \<and> dquote \<notin> set l"
proof -
  from assms obtain r2 r4 where
    a: "takeWhile is_word s \<noteq> []" and b: "dropWhile is_word s = CHR ''-'' # r2"
    and c: "takeWhile is_word_or_hyphen r2 \<noteq> []"
    and d: "dropWhile is_word_or_hyphen r2 = CHR ''['' # dquote # r4"
    and e: "l = takeWhile (\<lambda>c. c \<noteq> dquote) r4" "l \<noteq> []"
    and f: "dropWhile (\<lambda>c. c \<noteq> dquote) r4 \<noteq> []"
    and i: "i = takeWhile is_word s @ CHR ''-'' # takeWhile is_word_or_hyphen r2"
    by (auto simp: match_here_def Let_def split: if_splits list.splits)
  let ?w = "takeWhile is_word s" and ?t = "takeWhile is_word_or_hyphen r2"
  let ?r5 = "dropWhile (\<lambda>c. c \<noteq> dquote) r4"
  have "hd ?r5 = dquote" using f hd_dropWhile [of "\<lambda>c. c \<noteq> dquote" r4] by auto
  with f obtain rest where r5: "?r5 = dquote # rest" by (cases ?r5) auto
  have "s = ?w @ dropWhile is_word s" by simp
  also have "dropWhile is_word s = CHR ''-'' # ?t @ dropWhile is_word_or_hyphen r2"
    using b by simp
  also have "dropWhile is_word_or_hyphen r2 = CHR ''['' # dquote # l @ ?r5"
    using d e(1) by simp
  finally have s: "s = ?w @ CHR ''-'' # ?t @ CHR ''['' # dquote # l @ dquote # rest"
    using r5 by simp
  have "\<forall>c\<in>set ?w. is_word c" by (auto dest: set_takeWhileD)
  moreover have "\<forall>c\<in>set ?t. is_word_or_hyphen c" by (auto dest: set_takeWhileD)
  moreover have "dquote \<notin> set l" by (auto simp: e(1) dest: set_takeWhileD)
  ultimately show ?thesis using s a c e(2) i by blast
qed

lemma line_match_node:
  assumes "\<forall>c\<in>set pre. \<not> is_word c"
    and w: "w \<noteq> []" "\<forall>c\<in>set w. is_word c"
    and t: "t \<noteq> []" "\<forall>c\<in>set t. is_word_or_hyphen c"
    and l: "l \<noteq> []" "dquote \<notin> set l"
  shows "line_match (pre @ w @ CHR ''-'' # t @ CHR ''['' # dquote # l @ dquote # rest)
         = Some (w @ CHR ''-'' # t, l)"
proof -
  obtain c cs where wc: "w = c # cs" using w(1) by (cases w) auto
  have "line_match (w @ CHR ''-'' # t @ CHR ''['' # dquote # l @ dquote # rest)
         = Some (w @ CHR ''-'' # t, l)"
    using match_here_node [OF w t l, of rest] by (simp add: wc)
  with line_match_skip [OF assms(1)] show ?thesis by simp
qed

text \<open>\<open>split_nl\<close> cuts at every newline and nowhere else.\<close>

lemma split_nl_nonempty: "split_nl s \<noteq> []"
  by (induction s) (auto split: list.splits)

lemma split_nl_append: "split_nl (a @ newline # b) = split_nl a @ split_nl b"
proof (induction a)
  case Nil
  show ?case by simp
next
  case (Cons c a)
  obtain l ls where "split_nl a = l # ls"
    using split_nl_nonempty [of a] by (cases "split_nl a") auto
  with Cons show ?case by simp
qed

lemma split_nl_single: "newline \<notin> set s \<Longrightarrow> split_nl s = [s]"
  by (induction s) auto

lemma extractResourceIds_line:
  assumes "line \<in> set (split_nl d)" and "r \<in> set (line_resources line)"
  shows "r \<in> set (extractResourceIds d)"
proof (cases "d = []")
  case True
  with assms have "line = []" by simp
  with assms(2) show ?thesis by (simp add: line_resources_def)
next
  case False
  with assms show ?thesis by (auto simp: extractResourceIds_def)
qed

section \<open>Identifiers are recoverable from the diagram\<close>

text \<open>
  C1. Let a line of the diagram be a node line in the generated format: an indentation
  without word characters, an identifier made of a word, a hyphen and a suffix of word
  characters and hyphens, then a bracket, a quoted label that is not empty, and any
  rest. Then \<open>extractResourceIds\<close> returns an entry whose identifier is exactly the
  identifier of that line; its type is the one the identifier's prefix gives and its
  label is the cleaned text between the quotes.
\<close>

theorem node_identifier_recovered:
  assumes "line \<in> set (split_nl d)"
    and "line = indent @ w @ CHR ''-'' # t @ CHR ''['' # dquote # l @ dquote # rest"
    and "\<forall>c\<in>set indent. \<not> is_word c"
    and "w \<noteq> []" "\<forall>c\<in>set w. is_word c"
    and "t \<noteq> []" "\<forall>c\<in>set t. is_word_or_hyphen c"
    and "l \<noteq> []" "dquote \<notin> set l"
  shows "\<exists>r\<in>set (extractResourceIds d).
           res_id r = w @ CHR ''-'' # t
         \<and> res_type r = type_of_id (w @ CHR ''-'' # t)
         \<and> res_label r = strip_id (replace_br l)"
proof -
  have "line_match line = Some (w @ CHR ''-'' # t, l)"
    unfolding assms(2) using assms(3-) by (rule line_match_node)
  then have "\<lparr>res_id = w @ CHR ''-'' # t, res_type = type_of_id (w @ CHR ''-'' # t),
              res_label = strip_id (replace_br l)\<rparr> \<in> set (line_resources line)"
    by (simp add: line_resources_def)
  from extractResourceIds_line [OF assms(1) this] show ?thesis by force
qed

text \<open>The EC2 node of the concrete diagram, eight spaces deep, is recovered.\<close>

theorem node_identifier_recovered_witness:
  \<open>''        ec2-web-1["web-server-1<br/>ID: ec2-web-1<br/>t2.micro"]''
      \<in> set (split_nl demo_diagram)
   \<and> (\<exists>r\<in>set (extractResourceIds demo_diagram).
         res_id r = ''ec2-web-1'' \<and> res_type r = ''EC2''
       \<and> res_label r = ''web-server-1 ec2-web-1 t2.micro'')\<close>
proof -
  let ?line = \<open>''        ec2-web-1["web-server-1<br/>ID: ec2-web-1<br/>t2.micro"]''\<close>
  have 1: "?line \<in> set (split_nl demo_diagram)"
    by (simp add: demo_diagram_def newline_def)
  have 2: "?line = ''        '' @ ''ec2'' @ CHR ''-'' # ''web-1'' @ CHR ''['' # dquote #
             ''web-server-1<br/>ID: ec2-web-1<br/>t2.micro'' @ dquote # '']''"
    by (simp add: dquote_def)
  have 3: "\<forall>c\<in>set ''        ''. \<not> is_word c" by (simp add: is_word_def)
  have 4: "''ec2'' \<noteq> []" "\<forall>c\<in>set ''ec2''. is_word c" by (simp_all add: is_word_def)
  have 5: "''web-1'' \<noteq> []" "\<forall>c\<in>set ''web-1''. is_word_or_hyphen c"
    by (simp_all add: is_word_or_hyphen_def is_word_def)
  have 6: "''web-server-1<br/>ID: ec2-web-1<br/>t2.micro'' \<noteq> []"
    "dquote \<notin> set ''web-server-1<br/>ID: ec2-web-1<br/>t2.micro''"
    by (simp_all add: dquote_def)
  have 7: "type_of_id (''ec2'' @ CHR ''-'' # ''web-1'') = ''EC2''"
    by (simp add: type_of_id_def)
  have 8: "strip_id (replace_br ''web-server-1<br/>ID: ec2-web-1<br/>t2.micro'')
            = ''web-server-1 ec2-web-1 t2.micro''"
    by code_simp
  from node_identifier_recovered [OF 1 2 3 4 5 6] 7 8 1 show ?thesis by simp
qed

section \<open>Applying Terraform changes keeps the user's text\<close>

text \<open>
  C2. \<open>updateInfrastructure\<close> with \<^verbatim>\<open>skipTerraformUpdate\<close> leaves the editor's text as it
  is and sets the baseline to that text; the diagram and the warnings come from the
  response. Without the option, the editor's text and the baseline both become the
  response's code. \<open>handleApplyTerraform\<close>, which passes the option, never changes the
  editor's text, whatever the backend answers; when the backend's answer is delivered,
  the baseline is the text the user applied.
\<close>

theorem terraform_preserved_on_apply:
  "pg_terraform (updateInfrastructure s response \<lparr>skipTerraformUpdate = Some True\<rparr>) = pg_terraform s
   \<and> pg_originalTerraform (updateInfrastructure s response \<lparr>skipTerraformUpdate = Some True\<rparr>)
       = pg_terraform s
   \<and> pg_diagram (updateInfrastructure s response opts) = diagram response
   \<and> pg_warnings (updateInfrastructure s response opts) = warnings response
   \<and> (skipTerraformUpdate opts \<noteq> Some True \<longrightarrow>
         pg_terraform (updateInfrastructure s response opts) = terraform response
       \<and> pg_originalTerraform (updateInfrastructure s response opts) = terraform response)
   \<and> pg_terraform (handleApplyTerraform net s) = pg_terraform s
   \<and> (truthy (pg_currentModelId s) \<and> pg_isHealthy s
        \<and> \<not> nullish (pg_originalTerraform s) \<and> \<not> nullish (pg_terraform s)
        \<and> snd (editTerraform net (pg_currentModelId s) (pg_originalTerraform s) (pg_terraform s))
            = Inr response \<longrightarrow>
         pg_originalTerraform (handleApplyTerraform net s) = pg_terraform s
       \<and> pg_diagram (handleApplyTerraform net s) = diagram response
       \<and> pg_warnings (handleApplyTerraform net s) = warnings response)"
proof -
  have upd: "pg_terraform (updateInfrastructure s' r \<lparr>skipTerraformUpdate = Some True\<rparr>) = pg_terraform s'"
    for s' r
    by (simp add: updateInfrastructure_def Let_def)
  have a: "pg_terraform (handleApplyTerraform net s) = pg_terraform s"
    by (simp add: handleApplyTerraform_def Let_def add_toast_def upd split: sum.splits)
  show ?thesis
    using a
    by (simp add: updateInfrastructure_def handleApplyTerraform_def Let_def add_toast_def)
qed

text \<open>
  On the concrete page the user's text is \<open>edited code\<close> and the backend generates
  \<open>generated code\<close>.
\<close>

theorem terraform_preserved_on_apply_witness:
  "pg_terraform (updateInfrastructure demo_page demo_response \<lparr>skipTerraformUpdate = None\<rparr>)
     = JStr ''generated code''
   \<and> pg_originalTerraform (updateInfrastructure demo_page demo_response \<lparr>skipTerraformUpdate = None\<rparr>)
     = JStr ''generated code''
   \<and> pg_terraform (handleApplyTerraform demo_net demo_page) = JStr ''edited code''
   \<and> pg_originalTerraform (handleApplyTerraform demo_net demo_page) = JStr ''edited code''
   \<and> pg_diagram (handleApplyTerraform demo_net demo_page) = JStr ''graph TB''
   \<and> pg_warnings (handleApplyTerraform demo_net demo_page) = demo_warnings"
proof -
  have skip: "skipTerraformUpdate \<lparr>skipTerraformUpdate = None\<rparr> \<noteq> Some True" by simp
  have pre: "truthy (pg_currentModelId demo_page) \<and> pg_isHealthy demo_page
        \<and> \<not> nullish (pg_originalTerraform demo_page) \<and> \<not> nullish (pg_terraform demo_page)
        \<and> snd (editTerraform demo_net (pg_currentModelId demo_page)
                 (pg_originalTerraform demo_page) (pg_terraform demo_page)) = Inr demo_response"
    by (simp add: demo_editTerraform) (simp add: demo_page_def nullish_def)
  have t: "pg_terraform demo_page = JStr ''edited code''" by (simp add: demo_page_def)
  have r: "terraform demo_response = JStr ''generated code''"
          "diagram demo_response = JStr ''graph TB''" "warnings demo_response = demo_warnings"
    by (simp_all add: demo_response_def)
  from terraform_preserved_on_apply
         [of demo_page demo_response "\<lparr>skipTerraformUpdate = None\<rparr>" demo_net]
       skip pre t r
  show ?thesis by simp
qed

section \<open>The severity of a delivered warning\<close>

lemma map_all_severity:
  "map_all mapWarning bs = Inr out \<Longrightarrow> w \<in> set out \<Longrightarrow>
     severity w = (if prop_of (spread w) ''severity'' = JStr ''HIGH'' then ''error''
                   else if prop_of (spread w) ''severity'' = JStr ''MEDIUM'' then ''warning''
                   else ''info'')"
proof (induction bs arbitrary: out)
  case Nil
  then show ?case by simp
next
  case (Cons x xs)
  from Cons.prems(1) obtain y ys where y: "mapWarning x = Inr y"
    and ys: "map_all mapWarning xs = Inr ys" and out: "out = y # ys"
    by (auto split: sum.splits)
  from Cons.prems(2) out have "w = y \<or> w \<in> set ys" by simp
  then show ?case
  proof
    assume "w = y"
    with y show ?thesis by (auto simp: mapWarning_def split: if_splits)
  next
    assume "w \<in> set ys"
    with Cons.IH ys show ?thesis by blast
  qed
qed

lemma mappedWarnings_severity:
  assumes "mappedWarnings data = Inr out" and "w \<in> set out"
  shows "severity w = (if prop_of (spread w) ''severity'' = JStr ''HIGH'' then ''error''
                   else if prop_of (spread w) ''severity'' = JStr ''MEDIUM'' then ''warning''
                   else ''info'')"
proof -
  from assms(1) obtain bs where "map_all mapWarning bs = Inr out"
    by (auto simp: mappedWarnings_def split: jsval.splits)
  then show ?thesis using assms(2) by (rule map_all_severity)
qed

lemma generateFromText_warnings:
  "snd (generateFromText net t) = Inr r \<Longrightarrow> \<exists>data. mappedWarnings data = Inr (warnings r)"
  by (auto simp: generateFromText_def Let_def split: sum.splits if_splits)

lemma editDiagram_warnings:
  "snd (editDiagram net m e) = Inr r \<Longrightarrow> \<exists>data. mappedWarnings data = Inr (warnings r)"
  by (auto simp: editDiagram_def Let_def split: sum.splits if_splits)

lemma editTerraform_warnings:
  "snd (editTerraform net m oc mc) = Inr r \<Longrightarrow> \<exists>data. mappedWarnings data = Inr (warnings r)"
  by (auto simp: editTerraform_def Let_def split: sum.splits if_splits)

text \<open>
  C3. Every warning of a response that \<open>generateFromText\<close>, \<open>editDiagram\<close> or
  \<open>editTerraform\<close> returns has a severity among \<open>error\<close>, \<open>warning\<close> and \<open>info\<close>: it is
  \<open>error\<close> when the backend's severity is the string \<open>HIGH\<close>, \<open>warning\<close> when it is
  \<open>MEDIUM\<close>, and \<open>info\<close> for every other value, a missing one included.
\<close>

theorem delivered_warning_severity:
  assumes "snd (generateFromText net t) = Inr r \<or> snd (editDiagram net m e) = Inr r
           \<or> snd (editTerraform net m' oc mc) = Inr r"
    and "w \<in> set (warnings r)"
  shows "severity w \<in> {''error'', ''warning'', ''info''}
       \<and> severity w = (if prop_of (spread w) ''severity'' = JStr ''HIGH'' then ''error''
                   else if prop_of (spread w) ''severity'' = JStr ''MEDIUM'' then ''warning''
                   else ''info'')"
proof -
  from assms(1) obtain data where "mappedWarnings data = Inr (warnings r)"
    using generateFromText_warnings editDiagram_warnings editTerraform_warnings by blast
  from mappedWarnings_severity [OF this assms(2)] show ?thesis by simp
qed

text \<open>The backend's \<open>HIGH\<close> warning arrives as an \<open>error\<close>.\<close>

theorem delivered_warning_severity_witness:
  "snd (editTerraform demo_net (JStr ''m-0'') (JStr ''old code'') (JStr ''edited code''))
     = Inr demo_response
   \<and> hd (warnings demo_response) \<in> set (warnings demo_response)
   \<and> prop_of (spread (hd (warnings demo_response))) ''severity'' = JStr ''HIGH''
   \<and> severity (hd (warnings demo_response)) = ''error''
   \<and> severity (hd (warnings demo_response)) \<in> {''error'', ''warning'', ''info''}"
proof -
  have e: "snd (editTerraform demo_net (JStr ''m-0'') (JStr ''old code'') (JStr ''edited code''))
     = Inr demo_response" by (rule demo_editTerraform)
  have m: "hd (warnings demo_response) \<in> set (warnings demo_response)"
    by (simp add: demo_response_def demo_warnings_def)
  have h: "prop_of (spread (hd (warnings demo_response))) ''severity'' = JStr ''HIGH''"
    by (simp add: demo_response_def demo_warnings_def)
  from delivered_warning_severity [OF disjI2 [OF disjI2 [OF e]] m] h e m
  show ?thesis by simp
qed

section \<open>The diagram controls\<close>

lemma find_None_image: "(find (\<lambda>r. f r = k) xs = None) = (k \<notin> f ` set xs)"
  by (auto simp: find_None_iff)




text \<open>
  C7. When a remove or a move is confirmed with an identifier that is not empty and is
  not among the identifiers extracted from the current diagram, \<open>handleAction\<close> emits no
  event and clears the identifier and the active action; the effect that follows a
  render clears them in the same way.
\<close>

theorem stale_identifier_aborts:
  assumes "a = Remove \<or> a = Move"
    and "dc_activeAction st = Some a"
    and "dc_resourceId st \<noteq> []"
    and "dc_resourceId st \<notin> res_id ` set (availableResources cd)"
  shows "handleAction cd st a = (st\<lparr>dc_resourceId := [], dc_activeAction := None\<rparr>, [])
       \<and> reset_stale cd st = st\<lparr>dc_resourceId := [], dc_activeAction := None\<rparr>"
  using assms by (auto simp: handleAction_def reset_stale_def find_None_image)

text \<open>An instance that was removed from the concrete diagram can no longer be removed.\<close>

theorem stale_identifier_aborts_witness:
  "handleAction (Some demo_diagram)
     \<lparr>dc_selectedResource = ''ec2'', dc_resourceId = ''ec2-web-9'',
      dc_targetSubnet = ''subnet-public-1'', dc_activeAction = Some Remove\<rparr> Remove
   = (\<lparr>dc_selectedResource = ''ec2'', dc_resourceId = [],
       dc_targetSubnet = ''subnet-public-1'', dc_activeAction = None\<rparr>, [])"
proof -
  let ?st = "\<lparr>dc_selectedResource = ''ec2'', dc_resourceId = ''ec2-web-9'',
      dc_targetSubnet = ''subnet-public-1'', dc_activeAction = Some Remove\<rparr>"
  have "res_id ` set (availableResources (Some demo_diagram))
          = set (map res_id (availableResources (Some demo_diagram)))" by simp
  then have n: "dc_resourceId ?st \<notin> res_id ` set (availableResources (Some demo_diagram))"
    unfolding demo_available by simp
  have a: "Remove = Remove \<or> Remove = Move" "dc_activeAction ?st = Some Remove"
    "dc_resourceId ?st \<noteq> []" by simp_all
  from stale_identifier_aborts [OF a n] show ?thesis by simp
qed

section \<open>The request of \<open>editDiagram\<close> and its failures\<close>

lemma map_of_set_prop: "map_of (set_prop k v ps) = (map_of ps)(k \<mapsto> v)"
  by (induction ps) auto

lemma backendRequest_shape:
  assumes "backendRequest mid event = Inr r"
  shows "map_of r ''current_model_id'' = Some mid
     \<and> map_of r ''operation'' = Some (JStr (action_name (action event) @ ''_resource''))
     \<and> map_of r ''resource_type'' = Some (JStr (resourceType event))
     \<and> map_of r ''resource_id''
         = (if action event = Remove \<or> action event = Move
            then map_option JStr (resourceId event) else None)
     \<and> (map_of r ''resource_id'' \<noteq> None) = (action event = Remove \<or> action event = Move)
     \<and> map_of r ''target_subnet_id''
         = (if action event = Move then map_option JStr (targetSubnet event) else None)
     \<and> (map_of r ''target_subnet_id'' \<noteq> None) = (action event = Move)
     \<and> (map_of r ''properties'' \<noteq> None) = (action event = Add)"
proof (cases "action event")
  case Add
  with assms show ?thesis
    by (auto simp: backendRequest_def Let_def map_of_set_prop)
next
  case Remove
  with assms show ?thesis
    by (auto simp: backendRequest_def Let_def map_of_set_prop split: option.splits if_splits)
next
  case Move
  with assms show ?thesis
    by (auto simp: backendRequest_def Let_def map_of_set_prop split: option.splits if_splits)
qed

lemma editDiagram_sent:
  "req \<in> set (fst (editDiagram net mid event)) \<Longrightarrow>
     \<exists>r. backendRequest mid event = Inr r
        \<and> req = \<lparr>endpoint = ''/edit/diagram'', verb = ''POST'', body = Some (JObj r)\<rparr>"
  by (auto simp: editDiagram_def Let_def split: sum.splits)

lemma editDiagram_build_error:
  "backendRequest mid event = Inl e \<Longrightarrow> editDiagram net mid event = ([], Inl e)"
  by (simp add: editDiagram_def)

lemma editDiagram_sends:
  "backendRequest mid event = Inr r \<Longrightarrow>
     fst (editDiagram net mid event)
       = [\<lparr>endpoint = ''/edit/diagram'', verb = ''POST'', body = Some (JObj r)\<rparr>]"
  by (simp add: editDiagram_def Let_def)

lemma demo_move_request:
  "backendRequest (JStr ''m-1'') demo_move
     = Inr [(''current_model_id'', JStr ''m-1''), (''operation'', JStr ''move_resource''),
            (''resource_type'', JStr ''ec2''), (''resource_id'', JStr ''ec2-web-1''),
            (''target_subnet_id'', JStr ''subnet-private-1'')]"
  by (simp add: backendRequest_def demo_move_def Let_def)

lemma backendRequest_no_id:
  "(action event = Remove \<or> action event = Move)
     \<Longrightarrow> resourceId event = None \<or> resourceId event = Some []
     \<Longrightarrow> backendRequest mid event
           = Inl (Error ''Resource ID is required for remove/move operations'')"
  by (auto simp: backendRequest_def Let_def)

lemma backendRequest_no_target:
  "action event = Move
     \<Longrightarrow> targetSubnet event = None \<or> targetSubnet event = Some []
     \<Longrightarrow> backendRequest mid event
           \<in> {Inl (Error ''Resource ID is required for remove/move operations''),
              Inl (Error ''Target subnet is required for move operation'')}"
  by (auto simp: backendRequest_def Let_def split: option.splits)

text \<open>
  An event that has what its action needs (an identifier for a remove or a move, a
  target subnet for a move; nothing for an add) always gets its request built.
\<close>

lemma backendRequest_builds:
  assumes "\<not> ((action event = Remove \<or> action event = Move)
              \<and> (resourceId event = None \<or> resourceId event = Some []))"
    and "\<not> (action event = Move \<and> (targetSubnet event = None \<or> targetSubnet event = Some []))"
  shows "\<exists>r. backendRequest mid event = Inr r"
proof (cases "action event")
  case Add
  then show ?thesis by (simp add: backendRequest_def Let_def)
next
  case Remove
  with assms(1) obtain i where "resourceId event = Some i" "i \<noteq> []" by auto
  with Remove show ?thesis by (simp add: backendRequest_def Let_def)
next
  case Move
  with assms(1) obtain i where i: "resourceId event = Some i" "i \<noteq> []" by auto
  from Move assms(2) obtain t where "targetSubnet event = Some t" "t \<noteq> []" by auto
  with Move i show ?thesis by (simp add: backendRequest_def Let_def)
qed

text \<open>
  C8. For every edit event, \<open>editDiagram\<close> sends no request when a remove or a move has no
  identifier or a move has no target subnet, and otherwise sends exactly one request, a
  POST to \<^verbatim>\<open>/edit/diagram\<close>. The body of that request has the model identifier, an
  \<^verbatim>\<open>operation\<close> that is the action's name followed by \<^verbatim>\<open>_resource\<close>, and the event's
  resource type as \<^verbatim>\<open>resource_type\<close>. It has \<^verbatim>\<open>resource_id\<close> exactly when the action is a
  remove or a move (the event's identifier), \<^verbatim>\<open>target_subnet_id\<close> exactly when it is a
  move (the event's target subnet), and \<^verbatim>\<open>properties\<close> exactly when it is an add.
\<close>

theorem mutation_request_shape:
  "if ((action event = Remove \<or> action event = Move)
        \<and> (resourceId event = None \<or> resourceId event = Some []))
      \<or> (action event = Move \<and> (targetSubnet event = None \<or> targetSubnet event = Some []))
   then fst (editDiagram net mid event) = []
   else (\<exists>r. fst (editDiagram net mid event)
               = [\<lparr>endpoint = ''/edit/diagram'', verb = ''POST'', body = Some (JObj r)\<rparr>]
     \<and> map_of r ''current_model_id'' = Some mid
     \<and> map_of r ''operation'' = Some (JStr (action_name (action event) @ ''_resource''))
     \<and> map_of r ''resource_type'' = Some (JStr (resourceType event))
     \<and> map_of r ''resource_id''
         = (if action event = Remove \<or> action event = Move
            then map_option JStr (resourceId event) else None)
     \<and> (map_of r ''resource_id'' \<noteq> None) = (action event = Remove \<or> action event = Move)
     \<and> map_of r ''target_subnet_id''
         = (if action event = Move then map_option JStr (targetSubnet event) else None)
     \<and> (map_of r ''target_subnet_id'' \<noteq> None) = (action event = Move)
     \<and> (map_of r ''properties'' \<noteq> None) = (action event = Add))"
proof (cases "((action event = Remove \<or> action event = Move)
        \<and> (resourceId event = None \<or> resourceId event = Some []))
      \<or> (action event = Move \<and> (targetSubnet event = None \<or> targetSubnet event = Some []))")
  case True
  then have "\<exists>e. backendRequest mid event = Inl e"
    using backendRequest_no_id [of event mid] backendRequest_no_target [of event mid] by auto
  then have e: "fst (editDiagram net mid event) = []"
    by (auto simp: editDiagram_build_error)
  show ?thesis unfolding if_P [OF True] by (rule e)
next
  case False
  then obtain r where r: "backendRequest mid event = Inr r"
    using backendRequest_builds [of event mid] by blast
  have ex: "\<exists>r. fst (editDiagram net mid event)
               = [\<lparr>endpoint = ''/edit/diagram'', verb = ''POST'', body = Some (JObj r)\<rparr>]
     \<and> map_of r ''current_model_id'' = Some mid
     \<and> map_of r ''operation'' = Some (JStr (action_name (action event) @ ''_resource''))
     \<and> map_of r ''resource_type'' = Some (JStr (resourceType event))
     \<and> map_of r ''resource_id''
         = (if action event = Remove \<or> action event = Move
            then map_option JStr (resourceId event) else None)
     \<and> (map_of r ''resource_id'' \<noteq> None) = (action event = Remove \<or> action event = Move)
     \<and> map_of r ''target_subnet_id''
         = (if action event = Move then map_option JStr (targetSubnet event) else None)
     \<and> (map_of r ''target_subnet_id'' \<noteq> None) = (action event = Move)
     \<and> (map_of r ''properties'' \<noteq> None) = (action event = Add)"
    using editDiagram_sends [OF r, of net] backendRequest_shape [OF r]
    by (intro exI [of _ r]) blast
  show ?thesis unfolding if_not_P [OF False] by (rule ex)
qed

text \<open>
  The concrete move is sent with its identifier and target and without properties; a
  remove without an identifier sends nothing; an add is sent with properties and no
  identifier.
\<close>

theorem mutation_request_shape_witness:
  "(\<exists>r. fst (editDiagram demo_net (JStr ''m-1'') demo_move)
           = [\<lparr>endpoint = ''/edit/diagram'', verb = ''POST'', body = Some (JObj r)\<rparr>]
       \<and> map_of r ''operation'' = Some (JStr ''move_resource'')
       \<and> map_of r ''resource_type'' = Some (JStr ''ec2'')
       \<and> map_of r ''resource_id'' = Some (JStr ''ec2-web-1'')
       \<and> map_of r ''target_subnet_id'' = Some (JStr ''subnet-private-1'')
       \<and> map_of r ''properties'' = None)
   \<and> fst (editDiagram demo_net (JStr ''m-1'')
            \<lparr>action = Remove, resourceType = ''ec2'', resourceId = None, targetSubnet = None,
             properties = None\<rparr>) = []
   \<and> (\<exists>r p. fst (editDiagram demo_net (JStr ''m-1'')
                   \<lparr>action = Add, resourceType = ''s3'', resourceId = None,
                    targetSubnet = None, properties = Some (JObj [])\<rparr>)
           = [\<lparr>endpoint = ''/edit/diagram'', verb = ''POST'', body = Some (JObj r)\<rparr>]
       \<and> map_of r ''operation'' = Some (JStr ''add_resource'')
       \<and> map_of r ''resource_type'' = Some (JStr ''s3'')
       \<and> map_of r ''resource_id'' = None
       \<and> map_of r ''target_subnet_id'' = None
       \<and> map_of r ''properties'' = Some p)"
proof -
  let ?rm = "\<lparr>action = Remove, resourceType = ''ec2'', resourceId = None,
              targetSubnet = None, properties = None\<rparr>"
  let ?add = "\<lparr>action = Add, resourceType = ''s3'', resourceId = None,
               targetSubnet = None, properties = Some (JObj [])\<rparr>"
  have 1: "\<exists>r. fst (editDiagram demo_net (JStr ''m-1'') demo_move)
           = [\<lparr>endpoint = ''/edit/diagram'', verb = ''POST'', body = Some (JObj r)\<rparr>]
       \<and> map_of r ''operation'' = Some (JStr ''move_resource'')
       \<and> map_of r ''resource_type'' = Some (JStr ''ec2'')
       \<and> map_of r ''resource_id'' = Some (JStr ''ec2-web-1'')
       \<and> map_of r ''target_subnet_id'' = Some (JStr ''subnet-private-1'')
       \<and> map_of r ''properties'' = None"
    using mutation_request_shape [of demo_move demo_net "JStr ''m-1''"]
    by (simp add: demo_move_def) blast
  have 2: "fst (editDiagram demo_net (JStr ''m-1'') ?rm) = []"
    using mutation_request_shape [of ?rm demo_net "JStr ''m-1''"] by simp
  have 3: "\<exists>r p. fst (editDiagram demo_net (JStr ''m-1'') ?add)
           = [\<lparr>endpoint = ''/edit/diagram'', verb = ''POST'', body = Some (JObj r)\<rparr>]
       \<and> map_of r ''operation'' = Some (JStr ''add_resource'')
       \<and> map_of r ''resource_type'' = Some (JStr ''s3'')
       \<and> map_of r ''resource_id'' = None
       \<and> map_of r ''target_subnet_id'' = None
       \<and> map_of r ''properties'' = Some p"
    using mutation_request_shape [of ?add demo_net "JStr ''m-1''"] by auto
  from 1 2 3 show ?thesis by blast
qed

text \<open>
  C6. A remove or a move without an identifier (absent or empty) makes \<open>editDiagram\<close>
  raise before anything is sent, and so does a move without a target subnet. When the
  request was sent and the body of the answer has \<^verbatim>\<open>success: false\<close>, \<open>editDiagram\<close>
  raises and returns no response; for an answer with an ok status the error's message
  is the backend's \<^verbatim>\<open>error\<close>, which is that text itself when it is a string that is not
  empty, and \<open>Operation failed\<close> when the backend gave none.
\<close>

theorem editDiagram_failures:
  "((action event = Remove \<or> action event = Move)
      \<and> (resourceId event = None \<or> resourceId event = Some [])
      \<longrightarrow> editDiagram net mid event
           = ([], Inl (Error ''Resource ID is required for remove/move operations'')))
   \<and> (action event = Move \<and> (targetSubnet event = None \<or> targetSubnet event = Some [])
      \<longrightarrow> fst (editDiagram net mid event) = []
         \<and> snd (editDiagram net mid event)
             \<in> {Inl (Error ''Resource ID is required for remove/move operations''),
                Inl (Error ''Target subnet is required for move operation'')})
   \<and> (fst (editDiagram net mid event) = [req] \<and> net req = Inr response
        \<and> body_json response = Inr data \<and> prop_of data ''success'' = JBool False
      \<longrightarrow> (\<exists>e. snd (editDiagram net mid event) = Inl e)
         \<and> (ok response \<longrightarrow>
              snd (editDiagram net mid event)
                = Inl (Error (to_string (js_or (prop_of data ''error'')
                                               (JStr ''Operation failed''))))
            \<and> (\<forall>m. prop_of data ''error'' = JStr m \<and> m \<noteq> []
                  \<longrightarrow> snd (editDiagram net mid event) = Inl (Error m))))"
proof (intro conjI impI)
  assume "(action event = Remove \<or> action event = Move)
      \<and> (resourceId event = None \<or> resourceId event = Some [])"
  then show "editDiagram net mid event
           = ([], Inl (Error ''Resource ID is required for remove/move operations''))"
    by (simp add: backendRequest_no_id editDiagram_build_error)
next
  assume a: "action event = Move \<and> (targetSubnet event = None \<or> targetSubnet event = Some [])"
  then obtain e where e: "backendRequest mid event = Inl e"
    and m: "Inl e \<in> {Inl (Error ''Resource ID is required for remove/move operations''),
                Inl (Error ''Target subnet is required for move operation'')
                  :: js_error + (string \<times> jsval) list}"
    using backendRequest_no_target [of event mid] by auto
  from e show "fst (editDiagram net mid event) = []" by (simp add: editDiagram_build_error)
  from e m show "snd (editDiagram net mid event)
             \<in> {Inl (Error ''Resource ID is required for remove/move operations''),
                Inl (Error ''Target subnet is required for move operation'')}"
    by (auto simp: editDiagram_build_error)
next
  assume a: "fst (editDiagram net mid event) = [req] \<and> net req = Inr response
        \<and> body_json response = Inr data \<and> prop_of data ''success'' = JBool False"
  then have "req \<in> set (fst (editDiagram net mid event))" by simp
  from editDiagram_sent [OF this] obtain r where r: "backendRequest mid event = Inr r"
    and req: "req = \<lparr>endpoint = ''/edit/diagram'', verb = ''POST'', body = Some (JObj r)\<rparr>"
    by blast
  have nn: "\<not> nullish data" using a by (auto simp: nullish_def)
  show "\<exists>e. snd (editDiagram net mid event) = Inl e"
    using a r req nn by (auto simp: editDiagram_def Let_def split: sum.splits)
  assume okr: "ok response"
  show f: "snd (editDiagram net mid event)
                = Inl (Error (to_string (js_or (prop_of data ''error'')
                                               (JStr ''Operation failed''))))"
    using a r req nn okr by (simp add: editDiagram_def Let_def)
  show "\<forall>m. prop_of data ''error'' = JStr m \<and> m \<noteq> []
                  \<longrightarrow> snd (editDiagram net mid event) = Inl (Error m)"
    using f by (auto simp: js_or_def)
qed

text \<open>
  A remove without an identifier and a move without a target subnet send nothing; the
  refusing backend's message is the message of the error.
\<close>

theorem editDiagram_failures_witness:
  "editDiagram demo_net (JStr ''m-1'')
     \<lparr>action = Remove, resourceType = ''ec2'', resourceId = None, targetSubnet = None,
      properties = None\<rparr>
     = ([], Inl (Error ''Resource ID is required for remove/move operations''))
   \<and> fst (editDiagram demo_net (JStr ''m-1'')
            \<lparr>action = Move, resourceType = ''ec2'', resourceId = Some ''ec2-web-1'',
             targetSubnet = None, properties = None\<rparr>) = []
   \<and> snd (editDiagram demo_net (JStr ''m-1'')
            \<lparr>action = Move, resourceType = ''ec2'', resourceId = Some ''ec2-web-1'',
             targetSubnet = None, properties = None\<rparr>)
       = Inl (Error ''Target subnet is required for move operation'')
   \<and> snd (editDiagram refusing_net (JStr ''m-1'') demo_move)
       = Inl (Error ''Resource lb-9 not found'')"
proof -
  let ?rm = "\<lparr>action = Remove, resourceType = ''ec2'', resourceId = None,
              targetSubnet = None, properties = None\<rparr>"
  let ?mv = "\<lparr>action = Move, resourceType = ''ec2'', resourceId = Some ''ec2-web-1'',
              targetSubnet = None, properties = None\<rparr>"
  let ?req = "\<lparr>endpoint = ''/edit/diagram'', verb = ''POST'',
         body = Some (JObj [(''current_model_id'', JStr ''m-1''),
                            (''operation'', JStr ''move_resource''),
                            (''resource_type'', JStr ''ec2''),
                            (''resource_id'', JStr ''ec2-web-1''),
                            (''target_subnet_id'', JStr ''subnet-private-1'')])\<rparr>"
  let ?response = "\<lparr>ok = True, statusText = ''OK'', body_text = Inr [],
          body_json = Inr (JObj [(''success'', JBool False),
                                 (''error'', JStr ''Resource lb-9 not found'')])\<rparr>"
  let ?data = "JObj [(''success'', JBool False), (''error'', JStr ''Resource lb-9 not found'')]"
  have 1: "(action ?rm = Remove \<or> action ?rm = Move)
           \<and> (resourceId ?rm = None \<or> resourceId ?rm = Some [])" by simp
  have 2: "action ?mv = Move \<and> (targetSubnet ?mv = None \<or> targetSubnet ?mv = Some [])"
    by simp
  have 3: "fst (editDiagram refusing_net (JStr ''m-1'') demo_move) = [?req]
           \<and> refusing_net ?req = Inr ?response
           \<and> body_json ?response = Inr ?data \<and> prop_of ?data ''success'' = JBool False"
    by (simp add: editDiagram_sends [OF demo_move_request] refusing_net_def)
  have 4: "ok ?response" "prop_of ?data ''error'' = JStr ''Resource lb-9 not found''"
    "''Resource lb-9 not found'' \<noteq> []" by simp_all
  have 5: "snd (editDiagram demo_net (JStr ''m-1'') ?mv)
       \<noteq> Inl (Error ''Resource ID is required for remove/move operations'')"
    by (simp add: editDiagram_def backendRequest_def Let_def)
  from editDiagram_failures [of ?rm demo_net "JStr ''m-1''"] 1
  have a: "editDiagram demo_net (JStr ''m-1'') ?rm
     = ([], Inl (Error ''Resource ID is required for remove/move operations''))" by blast
  from editDiagram_failures [of ?mv demo_net "JStr ''m-1''"] 2 5
  have b: "fst (editDiagram demo_net (JStr ''m-1'') ?mv) = []
      \<and> snd (editDiagram demo_net (JStr ''m-1'') ?mv)
          = Inl (Error ''Target subnet is required for move operation'')" by blast
  from editDiagram_failures [of demo_move refusing_net "JStr ''m-1''" ?req ?response ?data] 3 4
  have c: "snd (editDiagram refusing_net (JStr ''m-1'') demo_move)
       = Inl (Error ''Resource lb-9 not found'')" by blast
  from a b c show ?thesis by blast
qed

section \<open>Moves issued by the controls\<close>




section \<open>The health check\<close>

text \<open>
  C9. \<open>checkHealth\<close> always returns a status and never raises. The status is \<open>healthy\<close>,
  with the time of the check, exactly when \<^verbatim>\<open>fetch\<close> delivered a response whose \<^verbatim>\<open>ok\<close>
  is set; it is \<open>unhealthy\<close>, without a time, for every other response and when
  \<^verbatim>\<open>fetch\<close> raised.
\<close>

theorem checkHealth_total:
  "snd (checkHealth net now) =
     Inr (if \<exists>r. net \<lparr>endpoint = ''/health'', verb = ''GET'', body = None\<rparr> = Inr r \<and> ok r
          then \<lparr>status = ''healthy'', timestamp = Some now\<rparr>
          else \<lparr>status = ''unhealthy'', timestamp = None\<rparr>)"
proof (cases "net \<lparr>endpoint = ''/health'', verb = ''GET'', body = None\<rparr>")
  case (Inl e)
  then show ?thesis by (simp add: checkHealth_def Let_def try_catch_def)
next
  case (Inr r)
  then show ?thesis by (cases "ok r") (simp_all add: checkHealth_def Let_def try_catch_def)
qed

text \<open>A backend that answers, one that answers 503, and a network that is down.\<close>

theorem checkHealth_total_witness:
  "snd (checkHealth demo_net ''2026-01-01T00:00:00.000Z'')
     = Inr \<lparr>status = ''healthy'', timestamp = Some ''2026-01-01T00:00:00.000Z''\<rparr>
   \<and> snd (checkHealth
            (\<lambda>req. Inr \<lparr>ok = False, statusText = ''Service Unavailable'',
                         body_text = Inr [], body_json = Inl (SyntaxError ''Unexpected end'')\<rparr>)
            ''2026-01-01T00:00:00.000Z'')
       = Inr \<lparr>status = ''unhealthy'', timestamp = None\<rparr>
   \<and> snd (checkHealth (\<lambda>req. Inl (TypeError ''Failed to fetch'')) ''2026-01-01T00:00:00.000Z'')
       = Inr \<lparr>status = ''unhealthy'', timestamp = None\<rparr>"
proof -
  let ?now = "''2026-01-01T00:00:00.000Z''"
  let ?down = "\<lambda>req :: http_request.
                 Inr \<lparr>ok = False, statusText = ''Service Unavailable'',
                      body_text = Inr [], body_json = Inl (SyntaxError ''Unexpected end'')\<rparr>
                 :: js_error + http_response"
  let ?off = "\<lambda>req :: http_request. Inl (TypeError ''Failed to fetch'') :: js_error + http_response"
  have a: "snd (checkHealth demo_net ?now) = Inr \<lparr>status = ''healthy'', timestamp = Some ?now\<rparr>"
    using checkHealth_total [of demo_net ?now] by (simp add: demo_net_def)
  have b: "snd (checkHealth ?down ?now) = Inr \<lparr>status = ''unhealthy'', timestamp = None\<rparr>"
    using checkHealth_total [of ?down ?now] by simp
  have c: "snd (checkHealth ?off ?now) = Inr \<lparr>status = ''unhealthy'', timestamp = None\<rparr>"
    using checkHealth_total [of ?off ?now] by simp
  from a b c show ?thesis by blast
qed

section \<open>Sending on the socket\<close>

text \<open>
  C10. \<open>sendMessage\<close> never raises. A frame reaches the socket only when the socket
  exists, \<^verbatim>\<open>isConnected\<close> is set and the socket's \<^verbatim>\<open>readyState\<close> is \<open>OPEN\<close>; in every other
  state nothing is sent. In that state the serialised message is sent when
  \<^verbatim>\<open>JSON.stringify\<close> and \<^verbatim>\<open>send\<close> succeed, and nothing is sent when either raises.
\<close>

theorem sendMessage_guarded:
  "snd (sendMessage stringify h ty data) = Inr ()
   \<and> (fst (sendMessage stringify h ty data) \<noteq> [] \<longrightarrow>
        (\<exists>sock. ws h = Some sock \<and> isConnected h \<and> readyState sock = OPEN))
   \<and> (\<not> (\<exists>sock. ws h = Some sock \<and> isConnected h \<and> readyState sock = OPEN) \<longrightarrow>
        sendMessage stringify h ty data = ([], Inr ()))
   \<and> (\<forall>sock frame. ws h = Some sock \<and> isConnected h \<and> readyState sock = OPEN
        \<and> stringify \<lparr>msg_type = ty, msg_data = data\<rparr> = Inr frame \<and> send sock frame = Inr ()
        \<longrightarrow> fst (sendMessage stringify h ty data) = [frame])
   \<and> (\<forall>sock. ws h = Some sock \<and> isConnected h \<and> readyState sock = OPEN
        \<and> ((\<exists>e. stringify \<lparr>msg_type = ty, msg_data = data\<rparr> = Inl e)
           \<or> (\<exists>frame e. stringify \<lparr>msg_type = ty, msg_data = data\<rparr> = Inr frame
                 \<and> send sock frame = Inl e))
        \<longrightarrow> sendMessage stringify h ty data = ([], Inr ()))"
  by (auto simp: sendMessage_def Let_def try_catch_def split: option.splits sum.splits)

text \<open>
  An open socket takes the frame; a socket that is still connecting, and a hook without
  a socket, take nothing; an open socket whose \<^verbatim>\<open>send\<close> raises takes nothing and the call
  still returns.
\<close>

theorem sendMessage_guarded_witness:
  "sendMessage (\<lambda>m. Inr (msg_type m))
     \<lparr>ws = Some \<lparr>readyState = OPEN, send = (\<lambda>f. Inr ())\<rparr>, isConnected = True\<rparr>
     ''sync_request'' (JObj [])
     = ([''sync_request''], Inr ())
   \<and> sendMessage (\<lambda>m. Inr (msg_type m))
       \<lparr>ws = Some \<lparr>readyState = CONNECTING, send = (\<lambda>f. Inr ())\<rparr>, isConnected = True\<rparr>
       ''sync_request'' (JObj [])
     = ([], Inr ())
   \<and> sendMessage (\<lambda>m. Inr (msg_type m)) \<lparr>ws = None, isConnected = False\<rparr>
       ''sync_request'' (JObj [])
     = ([], Inr ())
   \<and> sendMessage (\<lambda>m. Inr (msg_type m))
       \<lparr>ws = Some \<lparr>readyState = OPEN, send = (\<lambda>f. Inl (DOMException ''InvalidStateError''))\<rparr>,
        isConnected = True\<rparr>
       ''sync_request'' (JObj [])
     = ([], Inr ())"
proof -
  let ?str = "\<lambda>m :: ws_message. Inr (msg_type m) :: js_error + string"
  let ?open = "\<lparr>readyState = OPEN, send = (\<lambda>f. Inr ())\<rparr>"
  let ?broken = "\<lparr>readyState = OPEN, send = (\<lambda>f. Inl (DOMException ''InvalidStateError''))\<rparr>"
  let ?h1 = "\<lparr>ws = Some ?open, isConnected = True\<rparr>"
  let ?h2 = "\<lparr>ws = Some \<lparr>readyState = CONNECTING, send = (\<lambda>f. Inr ())\<rparr>, isConnected = True\<rparr>"
  let ?h3 = "\<lparr>ws = None, isConnected = False\<rparr> :: hook"
  let ?h4 = "\<lparr>ws = Some ?broken, isConnected = True\<rparr>"
  have p: "ws ?h1 = Some ?open \<and> isConnected ?h1 \<and> readyState ?open = OPEN
        \<and> ?str \<lparr>msg_type = ''sync_request'', msg_data = JObj []\<rparr> = Inr ''sync_request''
        \<and> send ?open ''sync_request'' = Inr ()" by simp
  have n2: "\<not> (\<exists>sock. ws ?h2 = Some sock \<and> isConnected ?h2 \<and> readyState sock = OPEN)" by simp
  have n3: "\<not> (\<exists>sock. ws ?h3 = Some sock \<and> isConnected ?h3 \<and> readyState sock = OPEN)" by simp
  have f: "ws ?h4 = Some ?broken \<and> isConnected ?h4 \<and> readyState ?broken = OPEN
        \<and> ((\<exists>e. ?str \<lparr>msg_type = ''sync_request'', msg_data = JObj []\<rparr> = Inl e)
           \<or> (\<exists>frame e. ?str \<lparr>msg_type = ''sync_request'', msg_data = JObj []\<rparr> = Inr frame
                 \<and> send ?broken frame = Inl e))" by simp
  from sendMessage_guarded [of ?str ?h1 "''sync_request''" "JObj []"] p
  have "snd (sendMessage ?str ?h1 ''sync_request'' (JObj [])) = Inr ()
      \<and> fst (sendMessage ?str ?h1 ''sync_request'' (JObj [])) = [''sync_request'']" by blast
  then have a: "sendMessage ?str ?h1 ''sync_request'' (JObj []) = ([''sync_request''], Inr ())"
    by (simp add: prod_eq_iff)
  from sendMessage_guarded [of ?str ?h2 "''sync_request''" "JObj []"] n2
  have b: "sendMessage ?str ?h2 ''sync_request'' (JObj []) = ([], Inr ())" by blast
  from sendMessage_guarded [of ?str ?h3 "''sync_request''" "JObj []"] n3
  have c: "sendMessage ?str ?h3 ''sync_request'' (JObj []) = ([], Inr ())" by blast
  from sendMessage_guarded [of ?str ?h4 "''sync_request''" "JObj []"] f
  have d: "sendMessage ?str ?h4 ''sync_request'' (JObj []) = ([], Inr ())" by blast
  from a b c d show ?thesis by blast
qed

section \<open>The default containment of an added resource\<close>

text \<open>
  C4, as the claim states it, fails: on the diagram whose only subnet is
  \<open>subnet-web-a\<close>, confirming the addition of an EC2 instance emits an event whose
  subnet is \<open>subnet-public-1\<close>, which is no resource of that diagram, and a request built
  for an event without properties names \<open>subnet-public-1\<close> too.
\<close>

theorem default_subnet_counterexample:
  "map res_id (availableResources (Some other_diagram))
     = [''vpc-main'', ''subnet-web-a'', ''ec2-web-1'']
   \<and> map properties (snd (handleAction (Some other_diagram) confirm_add_ec2 Add))
     = [Some (JObj [(''subnet_id'', JStr ''subnet-public-1''),
                    (''instance_type'', JStr ''t2.micro'')])]
   \<and> ''subnet-public-1'' \<notin> set (map res_id (availableResources (Some other_diagram)))
   \<and> backendRequest (JStr ''m-1'')
        \<lparr>action = Add, resourceType = ''ec2'', resourceId = None, targetSubnet = None,
         properties = None\<rparr>
     = Inr [(''current_model_id'', JStr ''m-1''), (''operation'', JStr ''add_resource''),
            (''resource_type'', JStr ''ec2''),
            (''properties'', JObj [(''subnet_id'', JStr ''subnet-public-1''),
                                   (''subnet_ids'', JArr [JStr ''subnet-private-1''])])]"
proof -
  have ids: "map res_id (availableResources (Some other_diagram))
     = [''vpc-main'', ''subnet-web-a'', ''ec2-web-1'']"
    by code_simp
  have ev: "map properties (snd (handleAction (Some other_diagram) confirm_add_ec2 Add))
     = [Some (JObj [(''subnet_id'', JStr ''subnet-public-1''),
                    (''instance_type'', JStr ''t2.micro'')])]"
    by (simp add: handleAction_def confirm_add_ec2_def initial_controls_def
          getDefaultProperties_def)
  have rq: "backendRequest (JStr ''m-1'')
        \<lparr>action = Add, resourceType = ''ec2'', resourceId = None, targetSubnet = None,
         properties = None\<rparr>
     = Inr [(''current_model_id'', JStr ''m-1''), (''operation'', JStr ''add_resource''),
            (''resource_type'', JStr ''ec2''),
            (''properties'', JObj [(''subnet_id'', JStr ''subnet-public-1''),
                                   (''subnet_ids'', JArr [JStr ''subnet-private-1''])])]"
    by (simp add: backendRequest_def Let_def)
  show ?thesis unfolding ids using ev rq by simp
qed

text \<open>
  C4, amended. The containment of an added resource is a constant of the front end,
  whatever the diagram and the model are. Confirming an addition emits one event whose
  properties are the defaults of the selected resource type: \<open>subnet-public-1\<close> for an
  EC2 instance, \<open>subnet-private-1\<close> and \<open>subnet-private-2\<close> for a database,
  \<open>subnet-public-1\<close> for a load balancer. For an add event without properties,
  \<open>editDiagram\<close> builds its request with \<^verbatim>\<open>subnet_id\<close> \<open>subnet-public-1\<close> and \<^verbatim>\<open>subnet_ids\<close>
  \<open>subnet-private-1\<close>; properties the event carries are sent as they are.
\<close>

theorem default_containment_fixed:
  "(dc_activeAction st = Some Add \<longrightarrow>
      map properties (snd (handleAction cd st Add))
        = [Some (getDefaultProperties (dc_selectedResource st))])
   \<and> prop_of (getDefaultProperties ''ec2'') ''subnet_id'' = JStr ''subnet-public-1''
   \<and> prop_of (getDefaultProperties ''rds'') ''subnet_ids''
       = JArr [JStr ''subnet-private-1'', JStr ''subnet-private-2'']
   \<and> prop_of (getDefaultProperties ''load_balancer'') ''subnet_ids''
       = JArr [JStr ''subnet-public-1'']
   \<and> (action event = Add \<and> properties event = None \<longrightarrow>
        (\<exists>r. backendRequest mid event = Inr r
           \<and> map_of r ''properties''
               = Some (JObj [(''subnet_id'', JStr ''subnet-public-1''),
                             (''subnet_ids'', JArr [JStr ''subnet-private-1''])])))
   \<and> (\<forall>p. action event = Add \<and> properties event = Some p \<and> truthy p \<longrightarrow>
        (\<exists>r. backendRequest mid event = Inr r \<and> map_of r ''properties'' = Some p))"
  by (auto simp: handleAction_def getDefaultProperties_def backendRequest_def Let_def
        map_of_set_prop js_or_def)

text \<open>
  The same default on two different diagrams, the request of an add event without
  properties, and the request of one that carries its own.
\<close>

theorem default_containment_fixed_witness:
  "map properties (snd (handleAction (Some other_diagram) confirm_add_ec2 Add))
     = [Some (getDefaultProperties ''ec2'')]
   \<and> map properties (snd (handleAction (Some demo_diagram) confirm_add_ec2 Add))
     = [Some (getDefaultProperties ''ec2'')]
   \<and> (\<exists>r. backendRequest (JStr ''m-1'')
              \<lparr>action = Add, resourceType = ''rds'', resourceId = None, targetSubnet = None,
               properties = None\<rparr> = Inr r
         \<and> map_of r ''properties''
             = Some (JObj [(''subnet_id'', JStr ''subnet-public-1''),
                           (''subnet_ids'', JArr [JStr ''subnet-private-1''])]))
   \<and> (\<exists>r. backendRequest (JStr ''m-1'')
              \<lparr>action = Add, resourceType = ''s3'', resourceId = None, targetSubnet = None,
               properties = Some (JObj [])\<rparr> = Inr r
         \<and> map_of r ''properties'' = Some (JObj []))"
proof -
  let ?ev = "\<lparr>action = Add, resourceType = ''rds'', resourceId = None, targetSubnet = None,
               properties = None\<rparr>"
  let ?s3 = "\<lparr>action = Add, resourceType = ''s3'', resourceId = None, targetSubnet = None,
               properties = Some (JObj [])\<rparr>"
  have a: "dc_activeAction confirm_add_ec2 = Some Add"
    and s: "dc_selectedResource confirm_add_ec2 = ''ec2''"
    by (simp_all add: confirm_add_ec2_def initial_controls_def)
  have e: "action ?ev = Add \<and> properties ?ev = None" by simp
  have p: "action ?s3 = Add \<and> properties ?s3 = Some (JObj []) \<and> truthy (JObj [])" by simp
  from default_containment_fixed [of confirm_add_ec2 "Some other_diagram" ?ev "JStr ''m-1''"] a s e
  have 1: "map properties (snd (handleAction (Some other_diagram) confirm_add_ec2 Add))
     = [Some (getDefaultProperties ''ec2'')]"
    and 3: "\<exists>r. backendRequest (JStr ''m-1'') ?ev = Inr r
         \<and> map_of r ''properties''
             = Some (JObj [(''subnet_id'', JStr ''subnet-public-1''),
                           (''subnet_ids'', JArr [JStr ''subnet-private-1''])])"
    by simp_all
  from default_containment_fixed [of confirm_add_ec2 "Some demo_diagram" ?s3 "JStr ''m-1''"] a s
  have 2: "map properties (snd (handleAction (Some demo_diagram) confirm_add_ec2 Add))
     = [Some (getDefaultProperties ''ec2'')]"
    by simp
  from default_containment_fixed [of confirm_add_ec2 "Some demo_diagram" ?s3 "JStr ''m-1''"] p
  have 4: "\<exists>r. backendRequest (JStr ''m-1'') ?s3 = Inr r
         \<and> map_of r ''properties'' = Some (JObj [])"
    by simp
  from 1 2 3 4 show ?thesis by blast
qed

end
